theory Spec2Isabelle
  imports Main
begin

section \<open>Values, exceptions and tables\<close>

text \<open>
  The application is a set of Django models (\<^verbatim>\<open>habit/models.py\<close>), forms
  (\<^verbatim>\<open>habit/forms.py\<close>) and views (\<^verbatim>\<open>habit/views.py\<close>). The database is an
  explicit state: one table per model, a table being the list of its rows, each row
  paired with its primary key. A Python exception is a value of \<open>exn\<close>; a method that
  can raise returns \<open>exn + 'a\<close>. Python integers are \<open>int\<close>; a date is the number of
  its day (the calendar is the standard library's).
\<close>

type_synonym date = int

type_synonym errors = "(string \<times> string) list"

datatype exn =
    ValidationError errors
  | Http404
  | DoesNotExist string
  | MultipleObjectsReturned string
  | RelatedObjectDoesNotExist string
  | AttributeError string
  | KeyError string
  | TypeError string

type_synonym 'a table = "(nat \<times> 'a) list"

text \<open>The key the database gives to a new row: one more than every key in use.\<close>

definition next_pk :: "'a table \<Rightarrow> nat" where
  "next_pk t = Suc (foldr max (map fst t) 0)"

text \<open>\<^verbatim>\<open>UPDATE ... WHERE id = k\<close> and \<^verbatim>\<open>DELETE ... WHERE id = k\<close>.\<close>

definition update_row :: "'a table \<Rightarrow> nat \<Rightarrow> 'a \<Rightarrow> 'a table" where
  "update_row t k r = map (\<lambda>(k', r'). if k' = k then (k', r) else (k', r')) t"

definition delete_row :: "'a table \<Rightarrow> nat \<Rightarrow> 'a table" where
  "delete_row t k = filter (\<lambda>(k', r'). k' \<noteq> k) t"

text \<open>
  \<^verbatim>\<open>models.Model.save\<close>: an instance with a primary key updates its row (and is
  inserted under that key when no row has it); an instance without one is inserted
  under a new key. The result is the table and the instance's key.
\<close>

definition Model_save :: "'a table \<Rightarrow> nat option \<Rightarrow> 'a \<Rightarrow> 'a table \<times> nat" where
  "Model_save t pk r =
     (case pk of
        Some k \<Rightarrow> (if k \<in> fst ` set t then (update_row t k r, k) else (t @ [(k, r)], k))
      | None \<Rightarrow> (t @ [(next_pk t, r)], next_pk t))"

text \<open>\<^verbatim>\<open>QuerySet.get\<close>: exactly one row must match.\<close>

definition objects_get :: "string \<Rightarrow> 'a table \<Rightarrow> (nat \<times> 'a \<Rightarrow> bool) \<Rightarrow> exn + nat \<times> 'a" where
  "objects_get name t p =
     (case filter p t of
        [] \<Rightarrow> Inl (DoesNotExist name)
      | [x] \<Rightarrow> Inr x
      | x # y # zs \<Rightarrow> Inl (MultipleObjectsReturned name))"

text \<open>\<^verbatim>\<open>str\<close> of an integer, for the messages that quote one.\<close>

function str_nat :: "nat \<Rightarrow> string" where
  "str_nat n = (if n < 10 then [char_of (48 + n)] else str_nat (n div 10) @ [char_of (48 + n mod 10)])"
  by pat_completeness auto
termination
  by (relation "measure id") auto

declare str_nat.simps [simp del]

definition str_int :: "int \<Rightarrow> string" where
  "str_int i = (if i < 0 then ''-'' @ str_nat (nat (- i)) else str_nat (nat i))"

section \<open>The models\<close>

text \<open>
  Each record holds the columns of a model that the operations below read or write.
  A foreign key is the key of the row it points to. The JSON value of a habit's
  \<open>custom_days\<close> is a list of day names or an object of such lists.
\<close>

record user =
  email :: string
  username :: string
  contact :: "string option"
  points :: int

datatype json = JList "string list" | JDict "(string \<times> string list) list"

record habit =
  habit_user :: nat
  frequency :: string
  custom_days :: "json option"
  target_per_day :: int
  start_date :: date
  end_date :: "date option"

text \<open>
  A \<^verbatim>\<open>HabitLog\<close> built by \<^verbatim>\<open>HabitLog()\<close> has no habit yet, so the foreign key of
  an instance is optional; the defaults are those of the model's fields.
\<close>

record habit_log =
  log_habit :: "nat option"
  log_date :: date
  progress :: int
  completed :: bool
  status :: string

record streak =
  streak_user :: nat
  streak_habit :: nat
  longest_streak :: int
  current_streak :: int
  streak_is_active :: bool
  last_completed :: "date option"

record reward =
  reward_user :: nat
  title :: string
  points_required :: int
  is_claimed :: bool

record friendship =
  fs_user :: nat
  friend :: nat

record friend_request =
  from_user :: "nat option"
  to_user :: "nat option"
  is_accepted :: bool

record db =
  users :: "user table"
  habits :: "habit table"
  logs :: "habit_log table"
  streaks :: "streak table"
  rewards :: "reward table"
  friendships :: "friendship table"
  friend_requests :: "friend_request table"

definition empty_db :: db where
  "empty_db = \<lparr>users = [], habits = [], logs = [], streaks = [], rewards = [],
     friendships = [], friend_requests = []\<rparr>"

section \<open>HabitLog\<close>

text \<open>\<^verbatim>\<open>self.habit\<close>: the related row is fetched; an unset key and a missing row raise.\<close>

definition log_get_habit :: "db \<Rightarrow> habit_log \<Rightarrow> exn + habit" where
  "log_get_habit d l =
     (case log_habit l of
        None \<Rightarrow> Inl (RelatedObjectDoesNotExist ''HabitLog has no habit.'')
      | Some hid \<Rightarrow>
          (case map_of (habits d) hid of
             None \<Rightarrow> Inl (DoesNotExist ''Habit'')
           | Some h \<Rightarrow> Inr h))"

text \<open>\<^verbatim>\<open>HabitLog.clean\<close> (models.py, lines 170 to 175).\<close>

definition progress_message :: "int \<Rightarrow> string" where
  "progress_message t = ''Progress cannot exceed the daily target of '' @ str_int t @ ''.''"

definition HabitLog_clean :: "db \<Rightarrow> habit_log \<Rightarrow> exn + unit" where
  "HabitLog_clean d l =
     (case log_get_habit d l of
        Inl e \<Rightarrow> Inl e
      | Inr h \<Rightarrow>
          (if progress l > target_per_day h
           then Inl (ValidationError [(''progress'', progress_message (target_per_day h))])
           else Inr ()))"

text \<open>
  The field validators of \<^verbatim>\<open>full_clean\<close>: the foreign key must point to a row,
  \<open>status\<close> must be one of \<^verbatim>\<open>STATUS_CHOICES\<close>, and a \<^verbatim>\<open>PositiveIntegerField\<close>
  refuses a negative value.
\<close>

definition STATUS_CHOICES :: "string list" where
  "STATUS_CHOICES = [''pending'', ''done'']"

definition habit_field_errors :: "db \<Rightarrow> nat option \<Rightarrow> errors" where
  "habit_field_errors d h =
     (case h of
        None \<Rightarrow> [(''habit'', ''This field cannot be null.'')]
      | Some hid \<Rightarrow>
          (if map_of (habits d) hid = None
           then [(''habit'', ''habit instance does not exist.'')] else []))"

definition status_field_errors :: "string \<Rightarrow> errors" where
  "status_field_errors s =
     (if s \<in> set STATUS_CHOICES then [] else [(''status'', ''Value is not a valid choice.'')])"

definition positive_field_errors :: "string \<Rightarrow> int \<Rightarrow> errors" where
  "positive_field_errors name v =
     (if v < 0 then [(name, ''Ensure this value is greater than or equal to 0.'')] else [])"

definition HabitLog_clean_fields :: "db \<Rightarrow> habit_log \<Rightarrow> errors" where
  "HabitLog_clean_fields d l =
     habit_field_errors d (log_habit l) @ positive_field_errors ''progress'' (progress l)
       @ status_field_errors (status l)"

text \<open>
  \<^verbatim>\<open>unique_together = ('habit', 'date')\<close> (models.py, line 155), as
  \<^verbatim>\<open>validate_unique\<close> checks it: another row with the same habit and date is an error;
  the instance's own row (when it has a key) does not count, and an instance with no
  habit is not checked.
\<close>

definition same_habit_date :: "habit_log \<Rightarrow> habit_log \<Rightarrow> bool" where
  "same_habit_date l r \<longleftrightarrow> log_habit r = log_habit l \<and> log_date r = log_date l"

definition HabitLog_validate_unique :: "db \<Rightarrow> nat option \<Rightarrow> habit_log \<Rightarrow> errors" where
  "HabitLog_validate_unique d pk l =
     (if log_habit l = None then []
      else if filter (\<lambda>(k, r). same_habit_date l r \<and> Some k \<noteq> pk) (logs d) = [] then []
      else [(''__all__'', ''Habit log with this Habit and Date already exists.'')])"

text \<open>
  \<^verbatim>\<open>full_clean\<close> collects the errors of the three steps and raises one
  \<^verbatim>\<open>ValidationError\<close> with all of them; the uniqueness check is skipped for a field
  that already has an error; any other exception of \<^verbatim>\<open>clean\<close> propagates.
\<close>

definition HabitLog_full_clean :: "db \<Rightarrow> nat option \<Rightarrow> habit_log \<Rightarrow> exn + unit" where
  "HabitLog_full_clean d pk l =
     (let fe = HabitLog_clean_fields d l;
          ue = (if habit_field_errors d (log_habit l) = [] then HabitLog_validate_unique d pk l else [])
      in case HabitLog_clean d l of
           Inl (ValidationError ce) \<Rightarrow> Inl (ValidationError (fe @ ce @ ue))
         | Inl e \<Rightarrow> Inl e
         | Inr u \<Rightarrow> (if fe @ ue = [] then Inr () else Inl (ValidationError (fe @ ue))))"

text \<open>
  \<^verbatim>\<open>HabitLog.save\<close> (models.py, lines 177 to 182). The instance is its key (\<open>None\<close>
  before the first save) and its fields; the result is the new database and the
  instance as the method leaves it.
\<close>

definition HabitLog_save :: "db \<Rightarrow> nat option \<times> habit_log \<Rightarrow> exn + db \<times> (nat option \<times> habit_log)" where
  "HabitLog_save d inst =
     (case inst of (pk, l) \<Rightarrow>
        (case log_get_habit d l of
           Inl e \<Rightarrow> Inl e
         | Inr h \<Rightarrow>
             (let l1 = l\<lparr>completed := (progress l \<ge> target_per_day h)\<rparr>;
                  l2 = l1\<lparr>status := (if completed l1 then ''done'' else ''pending'')\<rparr>
              in case HabitLog_full_clean d pk l2 of
                   Inl e \<Rightarrow> Inl e
                 | Inr u \<Rightarrow>
                     (case Model_save (logs d) pk l2 of
                        (t, k) \<Rightarrow> Inr (d\<lparr>logs := t\<rparr>, (Some k, l2))))))"

section \<open>User, Habit and the models saved through the admin site\<close>

text \<open>
  \<^verbatim>\<open>User.save\<close> (models.py, lines 52 to 56) normalises \<open>contact\<close>, validates and
  saves. The validators modelled are those of the columns kept: non-blank and bounded
  \<open>email\<close> and \<open>username\<close>, both unique, a bounded \<open>contact\<close>, and
  \<^verbatim>\<open>MinValueValidator(0)\<close> on \<open>points\<close> (models.py, line 37). Strings are ASCII here,
  so \<open>length\<close> is Python's \<^verbatim>\<open>len\<close>.
\<close>

definition char_field_errors :: "string \<Rightarrow> nat \<Rightarrow> string \<Rightarrow> errors" where
  "char_field_errors name n v =
     (if v = [] then [(name, ''This field cannot be blank.'')]
      else if length v > n then [(name, ''Ensure this value has at most '' @ str_nat n @ '' characters.'')]
      else [])"

definition User_clean_fields :: "user \<Rightarrow> errors" where
  "User_clean_fields u =
     char_field_errors ''email'' 255 (email u) @ char_field_errors ''username'' 50 (username u)
       @ (case contact u of
            None \<Rightarrow> []
          | Some c \<Rightarrow> (if length c > 12
                       then [(''contact'', ''Ensure this value has at most 12 characters.'')] else []))
       @ positive_field_errors ''points'' (points u)"

definition User_validate_unique :: "db \<Rightarrow> nat option \<Rightarrow> user \<Rightarrow> errors" where
  "User_validate_unique d pk u =
     (if char_field_errors ''email'' 255 (email u) = []
         \<and> filter (\<lambda>(k, r). email r = email u \<and> Some k \<noteq> pk) (users d) \<noteq> []
      then [(''email'', ''User with this Email already exists.'')] else [])
     @ (if char_field_errors ''username'' 50 (username u) = []
         \<and> filter (\<lambda>(k, r). username r = username u \<and> Some k \<noteq> pk) (users d) \<noteq> []
      then [(''username'', ''User with this Username already exists.'')] else [])"

definition User_full_clean :: "db \<Rightarrow> nat option \<Rightarrow> user \<Rightarrow> exn + unit" where
  "User_full_clean d pk u =
     (let es = User_clean_fields u @ User_validate_unique d pk u
      in if es = [] then Inr () else Inl (ValidationError es))"

definition User_save :: "db \<Rightarrow> nat option \<times> user \<Rightarrow> exn + db \<times> (nat option \<times> user)" where
  "User_save d inst =
     (case inst of (pk, u) \<Rightarrow>
        (let u1 = u\<lparr>contact := (if contact u = Some [] then None else contact u)\<rparr>
         in case User_full_clean d pk u1 of
              Inl e \<Rightarrow> Inl e
            | Inr x \<Rightarrow>
                (case Model_save (users d) pk u1 of
                   (t, k) \<Rightarrow> Inr (d\<lparr>users := t\<rparr>, (Some k, u1)))))"

text \<open>
  \<^verbatim>\<open>Habit.clean\<close> and \<^verbatim>\<open>Habit.save\<close> (models.py, lines 121 to 131), with the
  validators of \<open>target_per_day\<close> (models.py, lines 102 to 105) and the choices of
  \<open>frequency\<close>. A first error of \<^verbatim>\<open>clean\<close> hides the second; \<^verbatim>\<open>.get\<close> on a JSON
  list is an \<^verbatim>\<open>AttributeError\<close>.
\<close>

definition custom_days_message :: errors where
  "custom_days_message = [(''custom_days'', ''Custom frequency requires a list of days.'')]"

definition Habit_clean :: "habit \<Rightarrow> exn + unit" where
  "Habit_clean h =
     (if (case end_date h of None \<Rightarrow> False | Some e \<Rightarrow> start_date h > e)
      then Inl (ValidationError [(''end_date'', ''End date cannot be before the start date.'')])
      else if frequency h = ''custom''
      then (case custom_days h of
              None \<Rightarrow> Inl (ValidationError custom_days_message)
            | Some (JList []) \<Rightarrow> Inl (ValidationError custom_days_message)
            | Some (JList (x # xs)) \<Rightarrow> Inl (AttributeError ''list.get'')
            | Some (JDict c) \<Rightarrow>
                (if c = [] \<or> map_of c ''days'' = None \<or> map_of c ''days'' = Some []
                 then Inl (ValidationError custom_days_message)
                 else Inr ()))
      else Inr ())"

definition FREQUENCY_CHOICES :: "string list" where
  "FREQUENCY_CHOICES = [''daily'', ''weekly'', ''custom'']"

definition user_field_errors :: "db \<Rightarrow> string \<Rightarrow> nat \<Rightarrow> errors" where
  "user_field_errors d name uid =
     (if map_of (users d) uid = None then [(name, ''user instance does not exist.'')] else [])"

definition Habit_clean_fields :: "db \<Rightarrow> habit \<Rightarrow> errors" where
  "Habit_clean_fields d h =
     user_field_errors d ''user'' (habit_user h)
       @ (if frequency h \<in> set FREQUENCY_CHOICES then []
          else [(''frequency'', ''Value is not a valid choice.'')])
       @ (if target_per_day h < 1
          then [(''target_per_day'', ''Ensure this value is greater than or equal to 1.'')]
          else if target_per_day h > 99999
          then [(''target_per_day'', ''Ensure this value is less than or equal to 99999.'')]
          else [])"

definition Habit_full_clean :: "db \<Rightarrow> habit \<Rightarrow> exn + unit" where
  "Habit_full_clean d h =
     (let fe = Habit_clean_fields d h
      in case Habit_clean h of
           Inl (ValidationError ce) \<Rightarrow> Inl (ValidationError (fe @ ce))
         | Inl e \<Rightarrow> Inl e
         | Inr u \<Rightarrow> (if fe = [] then Inr () else Inl (ValidationError fe)))"

definition Habit_save :: "db \<Rightarrow> nat option \<times> habit \<Rightarrow> exn + db \<times> (nat option \<times> habit)" where
  "Habit_save d inst =
     (case inst of (pk, h) \<Rightarrow>
        (case Habit_full_clean d h of
           Inl e \<Rightarrow> Inl e
         | Inr x \<Rightarrow>
             (case Model_save (habits d) pk h of
                (t, k) \<Rightarrow> Inr (d\<lparr>habits := t\<rparr>, (Some k, h)))))"

text \<open>
  \<^verbatim>\<open>Streak\<close> (models.py, lines 191 to 206) has no \<^verbatim>\<open>clean\<close> and no \<^verbatim>\<open>save\<close> of its
  own. \<^verbatim>\<open>StreakAdmin\<close> (admin.py, lines 215 to 219) registers it with every field
  editable: the admin form runs the field validators (both foreign keys point to a
  row, both counters are non-negative) and saves the row. A new streak has the
  defaults of the model.
\<close>

definition Streak_new :: "nat \<Rightarrow> nat \<Rightarrow> streak" where
  "Streak_new u h = \<lparr>streak_user = u, streak_habit = h, longest_streak = 0, current_streak = 0,
     streak_is_active = True, last_completed = None\<rparr>"

definition Streak_clean_fields :: "db \<Rightarrow> streak \<Rightarrow> errors" where
  "Streak_clean_fields d s =
     user_field_errors d ''user'' (streak_user s)
       @ habit_field_errors d (Some (streak_habit s))
       @ positive_field_errors ''longest_streak'' (longest_streak s)
       @ positive_field_errors ''current_streak'' (current_streak s)"

definition StreakAdmin_save :: "db \<Rightarrow> nat option \<times> streak \<Rightarrow> exn + db" where
  "StreakAdmin_save d inst =
     (case inst of (pk, s) \<Rightarrow>
        (if Streak_clean_fields d s = []
         then Inr (d\<lparr>streaks := fst (Model_save (streaks d) pk s)\<rparr>)
         else Inl (ValidationError (Streak_clean_fields d s))))"

text \<open>
  \<^verbatim>\<open>Reward\<close> (models.py, lines 350 to 363) through \<^verbatim>\<open>RewardAdmin\<close> (admin.py, lines
  311 to 328): the owner exists, the title is not blank, and
  \<^verbatim>\<open>MinValueValidator(1)\<close> holds of \<open>points_required\<close>.
\<close>

definition Reward_clean_fields :: "db \<Rightarrow> reward \<Rightarrow> errors" where
  "Reward_clean_fields d r =
     user_field_errors d ''user'' (reward_user r)
       @ char_field_errors ''title'' 100 (title r)
       @ (if points_required r < 1
          then [(''points_required'', ''Ensure this value is greater than or equal to 1.'')]
          else [])"

definition RewardAdmin_save :: "db \<Rightarrow> nat option \<times> reward \<Rightarrow> exn + db" where
  "RewardAdmin_save d inst =
     (case inst of (pk, r) \<Rightarrow>
        (if Reward_clean_fields d r = []
         then Inr (d\<lparr>rewards := fst (Model_save (rewards d) pk r)\<rparr>)
         else Inl (ValidationError (Reward_clean_fields d r))))"

section \<open>Friend requests and friendships\<close>

text \<open>
  \<^verbatim>\<open>self.from_user\<close> and \<^verbatim>\<open>self.to_user\<close>: reading a related user whose key is
  unset raises \<^verbatim>\<open>RelatedObjectDoesNotExist\<close>.
\<close>

definition related_user :: "db \<Rightarrow> string \<Rightarrow> nat option \<Rightarrow> exn + nat \<times> user" where
  "related_user d name k =
     (case k of
        None \<Rightarrow> Inl (RelatedObjectDoesNotExist name)
      | Some uid \<Rightarrow>
          (case map_of (users d) uid of
             None \<Rightarrow> Inl (DoesNotExist ''User'')
           | Some u \<Rightarrow> Inr (uid, u)))"

text \<open>\<^verbatim>\<open>FriendRequest.clean\<close> (models.py, lines 301 to 307).\<close>

definition FriendRequest_clean :: "db \<Rightarrow> friend_request \<Rightarrow> exn + unit" where
  "FriendRequest_clean d fr =
     (case related_user d ''FriendRequest has no from_user.'' (from_user fr) of
        Inl e \<Rightarrow> Inl e
      | Inr (f, fu) \<Rightarrow>
          (case related_user d ''FriendRequest has no to_user.'' (to_user fr) of
             Inl e \<Rightarrow> Inl e
           | Inr (t, tu) \<Rightarrow>
               (if f = t
                then Inl (ValidationError [(''__all__'', ''You cannot send a friend request to yourself.'')])
                else if filter (\<lambda>(k, r). fs_user r = f \<and> friend r = t) (friendships d) \<noteq> []
                then Inl (ValidationError [(''__all__'', ''A friendship already exists.'')])
                else Inr ())))"

text \<open>
  \<^verbatim>\<open>FriendRequestAdmin\<close> (admin.py, lines 302 to 308): the admin form validates the
  instance (both users chosen and existing, \<^verbatim>\<open>clean\<close>, and
  \<^verbatim>\<open>unique_together = ("from_user", "to_user")\<close>) and saves it.
\<close>

definition request_user_errors :: "db \<Rightarrow> string \<Rightarrow> nat option \<Rightarrow> errors" where
  "request_user_errors d name k =
     (case k of None \<Rightarrow> [(name, ''This field is required.'')] | Some uid \<Rightarrow> user_field_errors d name uid)"

definition FriendRequest_validate_unique :: "db \<Rightarrow> nat option \<Rightarrow> friend_request \<Rightarrow> errors" where
  "FriendRequest_validate_unique d pk fr =
     (if from_user fr = None \<or> to_user fr = None then []
      else if filter (\<lambda>(k, r). from_user r = from_user fr \<and> to_user r = to_user fr \<and> Some k \<noteq> pk)
                (friend_requests d) = [] then []
      else [(''__all__'', ''Friend request with this From user and To user already exists.'')])"

definition FriendRequestAdmin_save :: "db \<Rightarrow> nat option \<times> friend_request \<Rightarrow> exn + db" where
  "FriendRequestAdmin_save d inst =
     (case inst of (pk, fr) \<Rightarrow>
        (let fe = request_user_errors d ''from_user'' (from_user fr)
                    @ request_user_errors d ''to_user'' (to_user fr);
             ue = (if fe = [] then FriendRequest_validate_unique d pk fr else [])
         in case FriendRequest_clean d fr of
              Inl (ValidationError ce) \<Rightarrow> Inl (ValidationError (fe @ ce @ ue))
            | Inl e \<Rightarrow> Inl e
            | Inr u \<Rightarrow>
                (if fe @ ue = []
                 then Inr (d\<lparr>friend_requests := fst (Model_save (friend_requests d) pk fr)\<rparr>)
                 else Inl (ValidationError (fe @ ue)))))"

text \<open>
  \<^verbatim>\<open>objects.get_or_create\<close>: the matching row when there is one, a new row (saved
  without validation) when there is none.
\<close>

definition get_or_create :: "string \<Rightarrow> 'a table \<Rightarrow> (nat \<times> 'a \<Rightarrow> bool) \<Rightarrow> 'a \<Rightarrow> exn + 'a table" where
  "get_or_create name t p r =
     (case objects_get name t p of
        Inr x \<Rightarrow> Inr t
      | Inl (DoesNotExist n) \<Rightarrow> Inr (fst (Model_save t None r))
      | Inl e \<Rightarrow> Inl e)"

definition get_object_or_404 :: "string \<Rightarrow> 'a table \<Rightarrow> (nat \<times> 'a \<Rightarrow> bool) \<Rightarrow> exn + nat \<times> 'a" where
  "get_object_or_404 name t p =
     (case objects_get name t p of
        Inl (DoesNotExist n) \<Rightarrow> Inl Http404
      | r \<Rightarrow> r)"

section \<open>Requests and responses\<close>

text \<open>
  A request carries the key of the session's user (\<open>None\<close> for an anonymous visitor),
  its method and its form data, already parsed: a field that is absent or does not
  parse is \<open>None\<close>. A response is a redirect to a named route (with the key in its
  URL, if any), a rendered template with the form's errors, or the exception that left
  the view; the flashed messages come with the first two.
\<close>

datatype level = SUCCESS | ERROR | INFO

type_synonym messages = "(level \<times> string) list"

datatype response =
    Redirect string "nat option" messages
  | Render string errors messages
  | Raised exn

record 'p request =
  req_user :: "nat option"
  req_method :: string
  req_POST :: 'p

record log_post =
  post_habit :: "nat option"
  post_date :: "date option"
  post_status :: "string option"
  post_progress :: "int option"

text \<open>\<^verbatim>\<open>request.user\<close>: the row of the session's user, if it still exists.\<close>

definition request_user :: "db \<Rightarrow> 'p request \<Rightarrow> (nat \<times> user) option" where
  "request_user d req =
     (case req_user req of
        None \<Rightarrow> None
      | Some uid \<Rightarrow> (case map_of (users d) uid of None \<Rightarrow> None | Some u \<Rightarrow> Some (uid, u)))"

text \<open>\<^verbatim>\<open>@login_required\<close>: a visitor who is not logged in is sent to the login page.\<close>

definition login_required :: "db \<Rightarrow> 'p request \<Rightarrow> (nat \<Rightarrow> user \<Rightarrow> response \<times> db) \<Rightarrow> response \<times> db" where
  "login_required d req view =
     (case request_user d req of
        None \<Rightarrow> (Redirect ''LOGIN_URL'' None [], d)
      | Some (uid, u) \<Rightarrow> view uid u)"

text \<open>
  The project's settings are not among the sources. With \<^verbatim>\<open>ATOMIC_REQUESTS\<close> set, a
  view that raises has its writes rolled back; without it (the framework's default)
  every write is committed as it is made. The flag is a parameter.
\<close>

definition handle :: "bool \<Rightarrow> (db \<Rightarrow> response \<times> db) \<Rightarrow> db \<Rightarrow> response \<times> db" where
  "handle ATOMIC_REQUESTS view d =
     (case view d of
        (Raised e, d') \<Rightarrow> (Raised e, if ATOMIC_REQUESTS then d else d')
      | (r, d') \<Rightarrow> (r, d'))"

section \<open>The habit log form and the log views\<close>

text \<open>
  \<^verbatim>\<open>HabitLogForm\<close> (forms.py, lines 167 to 194) is a model form over \<open>habit\<close>,
  \<open>date\<close>, \<open>status\<close> and \<open>progress\<close>, all required; \<open>self.habit\<close> is the form's
  optional keyword argument. \<^verbatim>\<open>clean_progress\<close> (lines 187 to 194) runs on a
  progress that passed the field's own checks.
\<close>

definition HabitLog_new :: "date \<Rightarrow> habit_log" where
  "HabitLog_new today = \<lparr>log_habit = None, log_date = today, progress = 0, completed = False,
     status = ''pending''\<rparr>"

definition clean_progress :: "habit option \<Rightarrow> int \<Rightarrow> errors" where
  "clean_progress fh p =
     (case fh of
        None \<Rightarrow> []
      | Some h \<Rightarrow>
          (if p > target_per_day h then [(''progress'', progress_message (target_per_day h))]
           else []))"

definition form_habit_errors :: "db \<Rightarrow> log_post \<Rightarrow> errors" where
  "form_habit_errors d post =
     (case post_habit post of
        None \<Rightarrow> [(''habit'', ''This field is required.'')]
      | Some hid \<Rightarrow>
          (if map_of (habits d) hid = None then [(''habit'', ''Select a valid choice.'')] else []))"

definition form_date_errors :: "log_post \<Rightarrow> errors" where
  "form_date_errors post =
     (case post_date post of None \<Rightarrow> [(''date'', ''This field is required.'')] | Some dt \<Rightarrow> [])"

definition form_status_errors :: "log_post \<Rightarrow> errors" where
  "form_status_errors post =
     (case post_status post of
        None \<Rightarrow> [(''status'', ''This field is required.'')]
      | Some s \<Rightarrow> (if s \<in> set STATUS_CHOICES then [] else [(''status'', ''Select a valid choice.'')]))"

definition form_progress_errors :: "habit option \<Rightarrow> log_post \<Rightarrow> errors" where
  "form_progress_errors fh post =
     (case post_progress post of
        None \<Rightarrow> [(''progress'', ''This field is required.'')]
      | Some p \<Rightarrow>
          (if p < 0 then [(''progress'', ''Ensure this value is greater than or equal to 0.'')]
           else clean_progress fh p))"

text \<open>The fields that passed are written to the instance; the others keep their value.\<close>

definition construct_instance :: "db \<Rightarrow> habit option \<Rightarrow> log_post \<Rightarrow> habit_log \<Rightarrow> habit_log" where
  "construct_instance d fh post l =
     l\<lparr>log_habit := (if form_habit_errors d post = [] then post_habit post else log_habit l),
       log_date := (case post_date post of None \<Rightarrow> log_date l | Some dt \<Rightarrow> dt),
       status := (case post_status post of
                    None \<Rightarrow> status l
                  | Some s \<Rightarrow> (if form_status_errors post = [] then s else status l)),
       progress := (case post_progress post of
                      None \<Rightarrow> progress l
                    | Some p \<Rightarrow> (if form_progress_errors fh post = [] then p else progress l))\<rparr>"

text \<open>
  \<^verbatim>\<open>form.is_valid()\<close>: the fields are cleaned, the instance is built, the model's
  field validators run on the fields that passed, then the model's \<^verbatim>\<open>clean\<close>, then
  the uniqueness check when neither \<open>habit\<close> nor \<open>date\<close> failed. Only a
  \<^verbatim>\<open>ValidationError\<close> becomes a form error; any other exception leaves the form.
  The result is the form's errors (it is valid when there are none) and the instance.
\<close>

definition HabitLogForm_is_valid ::
    "db \<Rightarrow> habit option \<Rightarrow> nat option \<times> habit_log \<Rightarrow> log_post \<Rightarrow> exn + errors \<times> habit_log" where
  "HabitLogForm_is_valid d fh inst post =
     (case inst of (pk, l0) \<Rightarrow>
        (let fe = form_habit_errors d post @ form_date_errors post @ form_status_errors post
                    @ form_progress_errors fh post;
             l = construct_instance d fh post l0;
             me = filter (\<lambda>(f, m). f \<notin> fst ` set fe) (HabitLog_clean_fields d l);
             ue = (if ''habit'' \<notin> fst ` set fe \<and> ''date'' \<notin> fst ` set fe
                   then HabitLog_validate_unique d pk l else [])
         in case HabitLog_clean d l of
              Inl (ValidationError ce) \<Rightarrow> Inr (fe @ me @ ce @ ue, l)
            | Inl e \<Rightarrow> Inl e
            | Inr u \<Rightarrow> Inr (fe @ me @ ue, l)))"

text \<open>
  \<^verbatim>\<open>log_add\<close> (views.py, lines 479 to 513). The view is not behind
  \<^verbatim>\<open>@login_required\<close>: filtering habits by an anonymous user is a \<^verbatim>\<open>TypeError\<close>.
  \<open>today\<close> is \<^verbatim>\<open>today_date()\<close>. Only \<^verbatim>\<open>HabitLog.DoesNotExist\<close> is caught; an
  exception of \<^verbatim>\<open>log.save()\<close> is not.
\<close>

definition log_add :: "date \<Rightarrow> db \<Rightarrow> log_post request \<Rightarrow> nat \<Rightarrow> response \<times> db" where
  "log_add today d req habit_id =
     (case request_user d req of
        None \<Rightarrow> (Raised (TypeError ''AnonymousUser''), d)
      | Some (uid, u) \<Rightarrow>
          (case get_object_or_404 ''Habit'' (habits d) (\<lambda>(k, h). k = habit_id \<and> habit_user h = uid) of
             Inl e \<Rightarrow> (Raised e, d)
           | Inr (hid, h) \<Rightarrow>
               (case objects_get ''HabitLog'' (logs d)
                       (\<lambda>(k, l). log_habit l = Some hid \<and> log_date l = today) of
                  Inr (k, log_exist) \<Rightarrow> (Redirect ''habit:log_edit'' (Some k) [], d)
                | Inl (DoesNotExist n) \<Rightarrow>
                    (if req_method req = ''POST''
                     then (case HabitLogForm_is_valid d (Some h) (None, HabitLog_new today) (req_POST req) of
                             Inl x \<Rightarrow> (Raised x, d)
                           | Inr (errs, l) \<Rightarrow>
                               (if errs = []
                                then (case HabitLog_save d (None, l\<lparr>log_habit := Some hid\<rparr>) of
                                        Inl x \<Rightarrow> (Raised x, d)
                                      | Inr (d', i) \<Rightarrow> (Redirect ''habit:log_list'' None [], d'))
                                else (Render ''habit/logs/log_add.html'' errs [(ERROR, ''Invalid Input'')], d)))
                     else (Render ''habit/logs/log_add.html'' [] [], d))
                | Inl e \<Rightarrow> (Raised e, d))))"

text \<open>
  \<^verbatim>\<open>log_edit\<close> (views.py, lines 445 to 469). The lookup \<^verbatim>\<open>habit__user\<close> joins the
  log with its habit; the bound form is built without the \<open>habit\<close> keyword.
\<close>

definition log_owner :: "db \<Rightarrow> habit_log \<Rightarrow> nat option" where
  "log_owner d l =
     (case log_habit l of
        None \<Rightarrow> None
      | Some hid \<Rightarrow> (case map_of (habits d) hid of None \<Rightarrow> None | Some h \<Rightarrow> Some (habit_user h)))"

definition log_edit :: "db \<Rightarrow> log_post request \<Rightarrow> nat \<Rightarrow> response \<times> db" where
  "log_edit d req pk =
     login_required d req (\<lambda>uid u.
       (case get_object_or_404 ''HabitLog'' (logs d) (\<lambda>(k, l). k = pk \<and> log_owner d l = Some uid) of
          Inl e \<Rightarrow> (Raised e, d)
        | Inr (k, log) \<Rightarrow>
            (if req_method req = ''POST''
             then (case HabitLogForm_is_valid d None (Some k, log) (req_POST req) of
                     Inl x \<Rightarrow> (Raised x, d)
                   | Inr (errs, l) \<Rightarrow>
                       (if errs = []
                        then (case HabitLog_save d (Some k, l) of
                                Inl x \<Rightarrow> (Raised x, d)
                              | Inr (d', i) \<Rightarrow> (Redirect ''habit:habit_detail'' (log_habit (snd i)) [], d'))
                        else (Render ''habit/logs/log_form.html'' errs [(ERROR, ''Invalid Input'')], d)))
             else (Render ''habit/logs/log_form.html'' [] [], d))))"

text \<open>
  \<^verbatim>\<open>habit_delete\<close> (views.py, lines 358 to 365): deleting a habit deletes its logs and
  its streaks (\<^verbatim>\<open>on_delete=models.CASCADE\<close>).
\<close>

definition habit_delete :: "db \<Rightarrow> unit request \<Rightarrow> nat \<Rightarrow> response \<times> db" where
  "habit_delete d req pk =
     login_required d req (\<lambda>uid u.
       (case get_object_or_404 ''Habit'' (habits d) (\<lambda>(k, h). k = pk \<and> habit_user h = uid) of
          Inl e \<Rightarrow> (Raised e, d)
        | Inr (k, h) \<Rightarrow>
            (if req_method req = ''POST''
             then (Redirect ''habit:habit_list'' None [(SUCCESS, ''Habit deleted successfully!'')],
                   d\<lparr>habits := delete_row (habits d) k,
                     logs := filter (\<lambda>(j, l). log_habit l \<noteq> Some k) (logs d),
                     streaks := filter (\<lambda>(j, s). streak_habit s \<noteq> k) (streaks d)\<rparr>)
             else (Render ''habit/habits/habit_confirm_delete.html'' [] [], d))))"

section \<open>Rewards\<close>

text \<open>
  \<^verbatim>\<open>reward_claim\<close> (views.py, lines 258 to 268). \<^verbatim>\<open>Reward\<close> (models.py, lines 350
  to 363) has the fields \<open>user\<close>, \<open>title\<close>, \<open>description\<close>, \<open>points_required\<close>,
  \<open>is_claimed\<close> and \<open>created_at\<close>, and no model relates to it: \<^verbatim>\<open>reward.claimed_by\<close>
  is an \<^verbatim>\<open>AttributeError\<close>, raised after \<^verbatim>\<open>request.user.save()\<close>.
\<close>

definition reward_claim :: "db \<Rightarrow> unit request \<Rightarrow> nat \<Rightarrow> response \<times> db" where
  "reward_claim d req pk =
     login_required d req (\<lambda>uid u.
       (case get_object_or_404 ''Reward'' (rewards d) (\<lambda>(k, r). k = pk) of
          Inl e \<Rightarrow> (Raised e, d)
        | Inr (k, reward) \<Rightarrow>
            (if points u \<ge> points_required reward
             then (case User_save d (Some uid, u\<lparr>points := points u - points_required reward\<rparr>) of
                     Inl x \<Rightarrow> (Raised x, d)
                   | Inr (d', i) \<Rightarrow> (Raised (AttributeError ''Reward.claimed_by''), d'))
             else (Redirect ''habit:rewards'' None
                     [(ERROR, ''Not enough points to claim this reward.'')], d))))"

section \<open>The friend views\<close>

text \<open>
  \<^verbatim>\<open>FriendRequestForm\<close> (forms.py, lines 241 to 266) has one field,
  \<open>to_user_email\<close>, and an instance built by \<^verbatim>\<open>FriendRequest()\<close>, whose users are
  unset. \<^verbatim>\<open>clean_to_user_email\<close> (lines 255 to 266) returns the user found; it reads
  \<^verbatim>\<open>self.instance.from_user\<close> outside its \<^verbatim>\<open>try\<close>. After the fields, the form
  validates its instance, which runs \<^verbatim>\<open>FriendRequest.clean\<close>.
\<close>

definition FriendRequest_new :: friend_request where
  "FriendRequest_new = \<lparr>from_user = None, to_user = None, is_accepted = False\<rparr>"

definition clean_to_user_email :: "db \<Rightarrow> friend_request \<Rightarrow> string \<Rightarrow> exn + nat" where
  "clean_to_user_email d inst e =
     (case objects_get ''User'' (users d) (\<lambda>(k, u). email u = e) of
        Inl (DoesNotExist n) \<Rightarrow>
          Inl (ValidationError [(''to_user_email'', ''No user found with this email address.'')])
      | Inl x \<Rightarrow> Inl x
      | Inr (k, u) \<Rightarrow>
          (case related_user d ''FriendRequest has no from_user.'' (from_user inst) of
             Inl x \<Rightarrow> Inl x
           | Inr (f, fu) \<Rightarrow>
               (if k = f
                then Inl (ValidationError
                       [(''to_user_email'', ''You cannot send a friend request to yourself.'')])
                else Inr k)))"

text \<open>A cleaned value is the user that \<^verbatim>\<open>clean_to_user_email\<close> returned, or a string.\<close>

datatype cleaned = CUser nat | CStr string

definition FriendRequestForm_is_valid ::
    "db \<Rightarrow> string option \<Rightarrow> exn + errors \<times> (string \<times> cleaned) list" where
  "FriendRequestForm_is_valid d post =
     (case (case post of
              None \<Rightarrow> Inr ([(''to_user_email'', ''This field is required.'')], [])
            | Some e \<Rightarrow>
                (case clean_to_user_email d FriendRequest_new e of
                   Inl (ValidationError es) \<Rightarrow> Inr (es, [])
                 | Inl x \<Rightarrow> Inl x
                 | Inr k \<Rightarrow> Inr ([], [(''to_user_email'', CUser k)]))) of
        Inl x \<Rightarrow> Inl x
      | Inr (fe, cleaned_data) \<Rightarrow>
          (case FriendRequest_clean d FriendRequest_new of
             Inl (ValidationError ce) \<Rightarrow> Inr (fe @ ce, cleaned_data)
           | Inl x \<Rightarrow> Inl x
           | Inr u \<Rightarrow> Inr (fe, cleaned_data)))"

text \<open>
  The \<^verbatim>\<open>try\<close> block of \<^verbatim>\<open>friend_request_send\<close> and the redirect after it (views.py,
  lines 152 to 161), for the user \<open>uid\<close> and the address \<open>e\<close>.
\<close>

definition friend_request_send_try :: "db \<Rightarrow> nat \<Rightarrow> string \<Rightarrow> response \<times> db" where
  "friend_request_send_try d uid e =
     (case objects_get ''User'' (users d) (\<lambda>(k, u). email u = e) of
        Inl (DoesNotExist n) \<Rightarrow>
          (Redirect ''habit:friends'' None [(ERROR, ''User with this email does not exist.'')], d)
      | Inl x \<Rightarrow> (Raised x, d)
      | Inr (k, to) \<Rightarrow>
          (if k \<noteq> uid
           then (case get_or_create ''FriendRequest'' (friend_requests d)
                        (\<lambda>(j, r). from_user r = Some uid \<and> to_user r = Some k)
                        \<lparr>from_user = Some uid, to_user = Some k, is_accepted = False\<rparr> of
                   Inl x \<Rightarrow> (Raised x, d)
                 | Inr t \<Rightarrow>
                     (Redirect ''habit:friends'' None
                        [(SUCCESS, ''Friend request sent to '' @ username to)],
                      d\<lparr>friend_requests := t\<rparr>))
           else (Redirect ''habit:friends'' None
                   [(ERROR, ''You cannot send a request to yourself.'')], d)))"

text \<open>
  \<^verbatim>\<open>friend_request_send\<close> (views.py, lines 146 to 164). The view reads
  \<^verbatim>\<open>form.cleaned_data['email']\<close>, a key the form does not have.
\<close>

definition friend_request_send :: "db \<Rightarrow> string option request \<Rightarrow> response \<times> db" where
  "friend_request_send d req =
     login_required d req (\<lambda>uid u.
       (if req_method req = ''POST''
        then (case FriendRequestForm_is_valid d (req_POST req) of
                Inl x \<Rightarrow> (Raised x, d)
              | Inr (errs, cleaned_data) \<Rightarrow>
                  (if errs = []
                   then (case map_of cleaned_data ''email'' of
                           None \<Rightarrow> (Raised (KeyError ''email''), d)
                         | Some (CStr e) \<Rightarrow> friend_request_send_try d uid e
                         | Some (CUser k) \<Rightarrow> (Raised (TypeError ''User''), d))
                   else (Render ''habit/friends.html'' errs [], d)))
        else (Render ''habit/friends.html'' [] [], d)))"

text \<open>\<^verbatim>\<open>friend_request_accept\<close> (views.py, lines 166 to 173).\<close>

definition friend_request_accept :: "db \<Rightarrow> unit request \<Rightarrow> nat \<Rightarrow> response \<times> db" where
  "friend_request_accept d req pk =
     login_required d req (\<lambda>uid u.
       (case get_object_or_404 ''FriendRequest'' (friend_requests d)
               (\<lambda>(k, r). k = pk \<and> to_user r = Some uid) of
          Inl e \<Rightarrow> (Raised e, d)
        | Inr (k, fr) \<Rightarrow>
            (case related_user d ''FriendRequest has no from_user.'' (from_user fr) of
               Inl e \<Rightarrow> (Raised e, d)
             | Inr (f, fu) \<Rightarrow>
                 (case get_or_create ''Friendship'' (friendships d)
                         (\<lambda>(j, r). fs_user r = uid \<and> friend r = f) \<lparr>fs_user = uid, friend = f\<rparr> of
                    Inl e \<Rightarrow> (Raised e, d)
                  | Inr t1 \<Rightarrow>
                      (case get_or_create ''Friendship'' t1
                              (\<lambda>(j, r). fs_user r = f \<and> friend r = uid) \<lparr>fs_user = f, friend = uid\<rparr> of
                         Inl e \<Rightarrow> (Raised e, d\<lparr>friendships := t1\<rparr>)
                       | Inr t2 \<Rightarrow>
                           (Redirect ''habit:friends'' None
                              [(SUCCESS, ''You are now friends with '' @ username fu)],
                            d\<lparr>friendships := t2,
                              friend_requests := delete_row (friend_requests d) k\<rparr>))))))"

section \<open>Routing and reachable states\<close>

text \<open>The routes of \<^verbatim>\<open>habit/urls.py\<close> that reach the views above.\<close>

datatype view =
    Log_add "log_post request" nat
  | Log_edit "log_post request" nat
  | Habit_delete "unit request" nat
  | Reward_claim "unit request" nat
  | Friend_request_send "string option request"
  | Friend_request_accept "unit request" nat

fun dispatch :: "date \<Rightarrow> view \<Rightarrow> db \<Rightarrow> response \<times> db" where
  "dispatch today (Log_add req habit_id) d = log_add today d req habit_id"
| "dispatch today (Log_edit req pk) d = log_edit d req pk"
| "dispatch today (Habit_delete req pk) d = habit_delete d req pk"
| "dispatch today (Reward_claim req pk) d = reward_claim d req pk"
| "dispatch today (Friend_request_send req) d = friend_request_send d req"
| "dispatch today (Friend_request_accept req pk) d = friend_request_accept d req pk"

text \<open>
  The states the application can be in: it starts with empty tables; rows are written
  by the models' \<^verbatim>\<open>save\<close> (registration, the habit forms, the admin site) and by the
  views, on any day, with or without \<^verbatim>\<open>ATOMIC_REQUESTS\<close>.
\<close>

inductive reachable :: "db \<Rightarrow> bool" where
  initial: "reachable empty_db"
| user_save: "reachable d \<Longrightarrow> User_save d inst = Inr (d', inst') \<Longrightarrow> reachable d'"
| habit_save: "reachable d \<Longrightarrow> Habit_save d hinst = Inr (d', hinst') \<Longrightarrow> reachable d'"
| log_save: "reachable d \<Longrightarrow> HabitLog_save d linst = Inr (d', linst') \<Longrightarrow> reachable d'"
| streak_admin: "reachable d \<Longrightarrow> StreakAdmin_save d sinst = Inr d' \<Longrightarrow> reachable d'"
| reward_admin: "reachable d \<Longrightarrow> RewardAdmin_save d rinst = Inr d' \<Longrightarrow> reachable d'"
| request_admin: "reachable d \<Longrightarrow> FriendRequestAdmin_save d finst = Inr d' \<Longrightarrow> reachable d'"
| view: "reachable d \<Longrightarrow> reachable (snd (handle atomic (dispatch today v) d))"

section \<open>Invariants\<close>

text \<open>
  The properties of a database that the theorems below are about: no user has a
  negative balance; no two logs have the same habit and date; every streak has
  \<open>current_streak \<le> longest_streak\<close>; no two friendships have the same user and friend
  (\<^verbatim>\<open>unique_together = ("user", "friend")\<close>, models.py, line 275).
\<close>

definition points_nonnegative :: "db \<Rightarrow> bool" where
  "points_nonnegative d \<longleftrightarrow> list_all (\<lambda>(k, u). 0 \<le> points u) (users d)"



definition streaks_ordered :: "db \<Rightarrow> bool" where
  "streaks_ordered d \<longleftrightarrow> list_all (\<lambda>(k, s). current_streak s \<le> longest_streak s) (streaks d)"

definition friend_pair :: "nat \<times> friendship \<Rightarrow> nat \<times> nat" where
  "friend_pair x = (fs_user (snd x), friend (snd x))"

definition friendships_unique :: "db \<Rightarrow> bool" where
  "friendships_unique d \<longleftrightarrow> distinct (map friend_pair (friendships d))"


definition written :: "db \<Rightarrow> db \<Rightarrow> bool" where
  "written d d' \<longleftrightarrow>
     (users d' = users d \<and> habits d' = habits d \<and> logs d' = logs d \<and> streaks d' = streaks d
        \<and> rewards d' = rewards d)
     \<or> (\<exists>i i'. HabitLog_save d i = Inr (d', i'))
     \<or> (\<exists>i i'. User_save d i = Inr (d', i'))
     \<or> (\<exists>k. d' = d\<lparr>habits := delete_row (habits d) k,
                    logs := filter (\<lambda>(j, l). log_habit l \<noteq> Some k) (logs d),
                    streaks := filter (\<lambda>(j, s). streak_habit s \<noteq> k) (streaks d)\<rparr>)"

section \<open>Example data\<close>

text \<open>
  A small database for the concrete evaluations below: the user Ann (key 1, 100
  points) and the user Bob (key 2, no points), and Ann's daily habit with target 10.
\<close>

definition example_user :: user where
  "example_user = \<lparr>email = ''a@x.org'', username = ''ann'', contact = None, points = 100\<rparr>"

definition example_friend :: user where
  "example_friend = \<lparr>email = ''b@x.org'', username = ''bob'', contact = None, points = 0\<rparr>"

definition example_habit :: habit where
  "example_habit = \<lparr>habit_user = 1, frequency = ''daily'', custom_days = None, target_per_day = 10,
     start_date = 0, end_date = None\<rparr>"

definition example_db :: db where
  "example_db = empty_db\<lparr>users := [(1, example_user), (2, example_friend)],
     habits := [(1, example_habit)]\<rparr>"

text \<open>A log of day 5 that meets the target, with the derived fields set wrongly.\<close>

definition example_log :: habit_log where
  "example_log = \<lparr>log_habit = Some 1, log_date = 5, progress = 10, completed = False,
     status = ''pending''\<rparr>"

text \<open>A reward of Ann's that costs 30 points, and a logged-in request with form data \<open>p\<close>.\<close>

definition example_reward :: reward where
  "example_reward = \<lparr>reward_user = 1, title = ''Movie Night'', points_required = 30,
     is_claimed = False\<rparr>"

definition example_rewards_db :: db where
  "example_rewards_db = example_db\<lparr>rewards := [(1, example_reward)]\<rparr>"

definition example_request :: "nat \<Rightarrow> 'p \<Rightarrow> 'p request" where
  "example_request uid p = \<lparr>req_user = Some uid, req_method = ''POST'', req_POST = p\<rparr>"

text \<open>A pending request from Ann to Bob; and Ann and Bob as friends already.\<close>

definition example_requests_db :: db where
  "example_requests_db = example_db\<lparr>friend_requests :=
     [(1, \<lparr>from_user = Some 1, to_user = Some 2, is_accepted = False\<rparr>)]\<rparr>"

definition example_friends_db :: db where
  "example_friends_db = example_db\<lparr>friendships :=
     [(1, \<lparr>fs_user = 1, friend = 2\<rparr>), (2, \<lparr>fs_user = 2, friend = 1\<rparr>)]\<rparr>"

text \<open>
  A form that logs the progress \<open>p\<close> for habit 1 on day 5, and the database after Ann
  logged 3; a streak of Ann's habit with the model's defaults, and one whose current
  count is 5.
\<close>

definition example_post :: "int \<Rightarrow> log_post" where
  "example_post p = \<lparr>post_habit = Some 1, post_date = Some 5, post_status = Some ''pending'',
     post_progress = Some p\<rparr>"

definition example_logged_db :: db where
  "example_logged_db = example_db\<lparr>logs := [(1, \<lparr>log_habit = Some 1, log_date = 5, progress = 3,
     completed = False, status = ''pending''\<rparr>)]\<rparr>"

definition example_streak_db :: db where
  "example_streak_db = example_db\<lparr>streaks := [(1, (Streak_new 1 1)\<lparr>current_streak := 5\<rparr>)]\<rparr>"

definition example_streak0_db :: db where
  "example_streak0_db = example_db\<lparr>streaks := [(1, Streak_new 1 1)]\<rparr>"

section \<open>Evaluation\<close>

lemmas example_defs = example_db_def empty_db_def example_user_def example_friend_def
  example_habit_def example_log_def example_reward_def example_rewards_db_def
  example_request_def example_requests_db_def example_friends_db_def
  example_post_def example_logged_db_def example_streak_db_def example_streak0_db_def

lemmas lookup_defs = request_user_def login_required_def get_object_or_404_def objects_get_def
  related_user_def get_or_create_def Model_save_def next_pk_def update_row_def delete_row_def


lemmas user_defs = User_save_def User_full_clean_def User_clean_fields_def
  User_validate_unique_def char_field_errors_def positive_field_errors_def

section \<open>Saving a habit log\<close>

lemma Model_save_mem: "Model_save t pk r = (t', k) \<Longrightarrow> (k, r) \<in> set t'"
  by (force simp: Model_save_def update_row_def image_iff split: option.splits if_splits)

lemma HabitLog_save_independent:
  "HabitLog_save d (pk, l\<lparr>completed := c, status := s\<rparr>) = HabitLog_save d (pk, l)"
  by (simp add: HabitLog_save_def log_get_habit_def Let_def split: option.splits sum.splits)

text \<open>
  Claim C1. Whenever \<^verbatim>\<open>HabitLog.save\<close> succeeds, the instance and the row it stored
  have \<open>completed\<close> equal to \<open>progress \<ge> target_per_day\<close> of the log's habit and
  \<open>status\<close> equal to \<^verbatim>\<open>'done'\<close> exactly when \<open>completed\<close> holds, \<^verbatim>\<open>'pending'\<close>
  otherwise; progress, habit and date are the caller's. The values the caller gave
  to \<open>completed\<close> and \<open>status\<close> have no influence on the outcome of the save.
\<close>

theorem HabitLog_save_derived:
  assumes "HabitLog_save d (pk, l) = Inr (d', (pk', l'))"
  shows "\<exists>h k. log_get_habit d l = Inr h \<and> pk' = Some k
      \<and> completed l' = (progress l' \<ge> target_per_day h)
      \<and> status l' = (if completed l' then ''done'' else ''pending'')
      \<and> progress l' = progress l \<and> log_habit l' = log_habit l \<and> log_date l' = log_date l
      \<and> (k, l') \<in> set (logs d')
      \<and> (\<forall>c s. HabitLog_save d (pk, l\<lparr>completed := c, status := s\<rparr>) = HabitLog_save d (pk, l))"
proof -
  from assms obtain h where h: "log_get_habit d l = Inr h"
    by (auto simp: HabitLog_save_def split: sum.splits)
  define l2 where "l2 = l\<lparr>completed := (progress l \<ge> target_per_day h),
     status := (if progress l \<ge> target_per_day h then ''done'' else ''pending'')\<rparr>"
  from assms h obtain t k where tk: "Model_save (logs d) pk l2 = (t, k)"
    and res: "d' = d\<lparr>logs := t\<rparr>" "pk' = Some k" "l' = l2"
    by (auto simp: HabitLog_save_def Let_def l2_def split: sum.splits prod.splits)
  have "(k, l2) \<in> set t" using tk by (rule Model_save_mem)
  then show ?thesis using h res
    by (simp add: l2_def HabitLog_save_independent)
qed

theorem HabitLog_save_derived_witness:
  "HabitLog_save example_db (None, example_log)
     = Inr (example_db\<lparr>logs := [(1, example_log\<lparr>completed := True, status := ''done''\<rparr>)]\<rparr>,
            (Some 1, example_log\<lparr>completed := True, status := ''done''\<rparr>))
   \<and> (\<exists>h k. log_get_habit example_db example_log = Inr h \<and> Some 1 = Some k
      \<and> completed (example_log\<lparr>completed := True, status := ''done''\<rparr>)
          = (progress (example_log\<lparr>completed := True, status := ''done''\<rparr>) \<ge> target_per_day h)
      \<and> status (example_log\<lparr>completed := True, status := ''done''\<rparr>) = ''done'')"
proof -
  have e: "HabitLog_save example_db (None, example_log)
     = Inr (example_db\<lparr>logs := [(1, example_log\<lparr>completed := True, status := ''done''\<rparr>)]\<rparr>,
            (Some 1, example_log\<lparr>completed := True, status := ''done''\<rparr>))"
    by (simp add: HabitLog_save_def log_get_habit_def example_db_def example_habit_def
        example_log_def empty_db_def HabitLog_full_clean_def HabitLog_clean_fields_def
        habit_field_errors_def positive_field_errors_def status_field_errors_def
        STATUS_CHOICES_def HabitLog_validate_unique_def HabitLog_clean_def Model_save_def
        next_pk_def Let_def)
  from HabitLog_save_derived [OF e] show ?thesis using e by auto
qed

lemma form_progress_errors_excess:
  "post_progress post = Some p \<Longrightarrow> target_per_day h < p \<Longrightarrow> form_progress_errors (Some h) post \<noteq> []"
  by (simp add: form_progress_errors_def clean_progress_def)

lemma log_add_rejects_excess:
  assumes user: "request_user d req = Some (uid, u)"
    and habit: "get_object_or_404 ''Habit'' (habits d) (\<lambda>(k, h). k = habit_id \<and> habit_user h = uid)
                  = Inr (hid, h)"
    and post: "post_progress (req_POST req) = Some p" and excess: "target_per_day h < p"
  shows "snd (log_add today d req habit_id) = d
         \<and> fst (log_add today d req habit_id) \<noteq> Redirect ''habit:log_list'' None []"
proof -
  have bad: "errs \<noteq> []"
    if "HabitLogForm_is_valid d (Some h) (None, HabitLog_new today) (req_POST req) = Inr (errs, l)"
    for errs l
    using that form_progress_errors_excess [OF post excess]
    by (auto simp: HabitLogForm_is_valid_def Let_def split: sum.splits exn.splits)
  show ?thesis
    using user habit bad
    by (auto simp: log_add_def split: sum.splits exn.splits prod.splits)
qed

text \<open>
  Claim C2. Saving a log whose progress exceeds the target of its habit raises a
  \<^verbatim>\<open>ValidationError\<close> that carries the error of \<^verbatim>\<open>HabitLog.clean\<close> on
  \<open>progress\<close>. The exception leaves \<^verbatim>\<open>save\<close> before \<^verbatim>\<open>super().save()\<close>: the result
  is the error and no new database, so no row is created or updated and the progress
  is not clamped. At the view, \<^verbatim>\<open>log_add\<close> with such a progress for the user's habit
  leaves the database as it found it and does not answer with its success redirect.
\<close>

theorem HabitLog_save_rejects_excess:
  assumes "map_of (habits d) hid = Some h" and "target_per_day h < progress l"
    and "log_habit l = Some hid"
  shows "(\<exists>es. HabitLog_save d (pk, l) = Inl (ValidationError es)
           \<and> (''progress'', progress_message (target_per_day h)) \<in> set es)
     \<and> (\<forall>today req habit_id uid u.
           request_user d req = Some (uid, u)
           \<longrightarrow> get_object_or_404 ''Habit'' (habits d) (\<lambda>(k, r). k = habit_id \<and> habit_user r = uid)
                 = Inr (hid, h)
           \<longrightarrow> post_progress (req_POST req) = Some (progress l)
           \<longrightarrow> snd (log_add today d req habit_id) = d
               \<and> fst (log_add today d req habit_id) \<noteq> Redirect ''habit:log_list'' None [])"
proof -
  have "\<exists>es. HabitLog_save d (pk, l) = Inl (ValidationError es)
           \<and> (''progress'', progress_message (target_per_day h)) \<in> set es"
    using assms
    by (simp add: HabitLog_save_def log_get_habit_def HabitLog_full_clean_def HabitLog_clean_def Let_def
        split: sum.splits)
  then show ?thesis using assms(2) by (blast dest: log_add_rejects_excess)
qed

theorem HabitLog_save_rejects_excess_witness:
  "map_of (habits example_db) 1 = Some example_habit
   \<and> target_per_day example_habit < progress (example_log\<lparr>progress := 11\<rparr>)
   \<and> log_habit (example_log\<lparr>progress := 11\<rparr>) = Some 1
   \<and> (\<exists>es. HabitLog_save example_db (None, example_log\<lparr>progress := 11\<rparr>) = Inl (ValidationError es)
           \<and> (''progress'', progress_message (target_per_day example_habit)) \<in> set es)
   \<and> snd (log_add 5 example_db (example_request 1 (example_post 11)) 1) = example_db"
proof -
  have a: "map_of (habits example_db) 1 = Some example_habit"
    by (simp add: example_db_def empty_db_def)
  have b: "target_per_day example_habit < progress (example_log\<lparr>progress := 11\<rparr>)"
    by (simp add: example_habit_def)
  have c: "log_habit (example_log\<lparr>progress := 11\<rparr>) = Some 1"
    by (simp add: example_log_def)
  have u: "request_user example_db (example_request 1 (example_post 11)) = Some (1, example_user)"
    by (simp add: example_defs lookup_defs)
  have g: "get_object_or_404 ''Habit'' (habits example_db) (\<lambda>(k, r). k = 1 \<and> habit_user r = 1)
             = Inr (1, example_habit)"
    by (simp add: example_defs lookup_defs)
  have p: "post_progress (req_POST (example_request 1 (example_post 11)))
             = Some (progress (example_log\<lparr>progress := 11\<rparr>))"
    by (simp add: example_defs)
  from HabitLog_save_rejects_excess [OF a b c, of None] a b c u g p show ?thesis by blast
qed

section \<open>Claiming a reward\<close>

text \<open>
  Claim C3. With enough points the claim does not go through: for Ann (100 points)
  and a reward of 30 points, \<^verbatim>\<open>request.user.save()\<close> stores the balance 70, and the
  next statement, \<^verbatim>\<open>reward.claimed_by.add(request.user)\<close>, raises. Without
  \<^verbatim>\<open>ATOMIC_REQUESTS\<close> the debit stays and no claim is recorded; with it the debit is
  rolled back and no claim is recorded either. The reward row is untouched in both.
\<close>

theorem reward_claim_debits_without_claim:
  "reward_claim example_rewards_db (example_request 1 ()) 1
     = (Raised (AttributeError ''Reward.claimed_by''),
        example_rewards_db\<lparr>users := [(1, example_user\<lparr>points := 70\<rparr>), (2, example_friend)]\<rparr>)
   \<and> handle False (\<lambda>d. reward_claim d (example_request 1 ()) 1) example_rewards_db
     = (Raised (AttributeError ''Reward.claimed_by''),
        example_rewards_db\<lparr>users := [(1, example_user\<lparr>points := 70\<rparr>), (2, example_friend)]\<rparr>)
   \<and> handle True (\<lambda>d. reward_claim d (example_request 1 ()) 1) example_rewards_db
     = (Raised (AttributeError ''Reward.claimed_by''), example_rewards_db)
   \<and> rewards (example_rewards_db\<lparr>users := [(1, example_user\<lparr>points := 70\<rparr>), (2, example_friend)]\<rparr>)
     = [(1, example_reward)]
   \<and> is_claimed example_reward = False"
proof -
  have e: "reward_claim example_rewards_db (example_request 1 ()) 1
     = (Raised (AttributeError ''Reward.claimed_by''),
        example_rewards_db\<lparr>users := [(1, example_user\<lparr>points := 70\<rparr>), (2, example_friend)]\<rparr>)"
    by (simp add: reward_claim_def example_defs lookup_defs user_defs Let_def)
  show ?thesis unfolding handle_def e by (simp add: example_defs)
qed

text \<open>
  Claim C4. When the logged-in user has fewer points than the reward requires, the
  view answers with the redirect that carries the error message \<^verbatim>\<open>Not enough points
  to claim this reward.\<close> and the database, hence the balance and the reward, is
  exactly as before, whether or not requests are atomic.
\<close>

theorem reward_claim_insufficient:
  assumes "request_user d req = Some (uid, u)"
    and "get_object_or_404 ''Reward'' (rewards d) (\<lambda>(k, r). k = pk) = Inr (k, reward)"
    and "points u < points_required reward"
  shows "reward_claim d req pk
           = (Redirect ''habit:rewards'' None [(ERROR, ''Not enough points to claim this reward.'')], d)
         \<and> handle atomic (\<lambda>d. reward_claim d req pk) d = reward_claim d req pk"
  using assms by (simp add: reward_claim_def login_required_def handle_def)

theorem reward_claim_insufficient_witness:
  "reward_claim example_rewards_db (example_request 2 ()) 1
     = (Redirect ''habit:rewards'' None [(ERROR, ''Not enough points to claim this reward.'')],
        example_rewards_db)
   \<and> points example_friend < points_required example_reward"
proof -
  have a: "request_user example_rewards_db (example_request 2 ()) = Some (2, example_friend)"
    by (simp add: example_defs lookup_defs)
  have b: "get_object_or_404 ''Reward'' (rewards example_rewards_db) (\<lambda>(k, r). k = 1)
             = Inr (1, example_reward)"
    by (simp add: example_defs lookup_defs)
  have c: "points example_friend < points_required example_reward"
    by (simp add: example_defs)
  from reward_claim_insufficient [OF a b c] c show ?thesis by simp
qed

section \<open>Sending a friend request\<close>

text \<open>
  The bound form never validates: its instance has no \<open>from_user\<close>, and
  \<^verbatim>\<open>FriendRequest.clean\<close> reads it.
\<close>

lemma FriendRequestForm_raises: "\<exists>x. FriendRequestForm_is_valid d post = Inl x"
  by (auto simp: FriendRequestForm_is_valid_def FriendRequest_clean_def FriendRequest_new_def
      related_user_def split: option.splits sum.splits exn.splits prod.splits)

text \<open>
  Claim C7. Ann posts Bob's address while her request to Bob is pending: the view
  raises inside \<^verbatim>\<open>form.is_valid()\<close>, which is a server error and no validation
  message. Had the form validated, the \<^verbatim>\<open>try\<close> block would have answered
  \<^verbatim>\<open>Friend request sent to bob\<close> and left the table as it was (the duplicate is
  ignored, with a success message); and with Ann and Bob friends already it would
  have created a request, with the same message. A request to herself raises in the
  form as well.
\<close>

theorem friend_request_send_duplicate:
  "friend_request_send example_requests_db (example_request 1 (Some ''b@x.org''))
     = (Raised (RelatedObjectDoesNotExist ''FriendRequest has no from_user.''), example_requests_db)
   \<and> friend_request_send_try example_requests_db 1 ''b@x.org''
     = (Redirect ''habit:friends'' None [(SUCCESS, ''Friend request sent to bob'')], example_requests_db)
   \<and> friend_request_send_try example_friends_db 1 ''b@x.org''
     = (Redirect ''habit:friends'' None [(SUCCESS, ''Friend request sent to bob'')],
        example_friends_db\<lparr>friend_requests :=
          [(1, \<lparr>from_user = Some 1, to_user = Some 2, is_accepted = False\<rparr>)]\<rparr>)
   \<and> friend_request_send example_db (example_request 1 (Some ''a@x.org''))
     = (Raised (RelatedObjectDoesNotExist ''FriendRequest has no from_user.''), example_db)"
  by (simp add: friend_request_send_def friend_request_send_try_def FriendRequestForm_is_valid_def
      clean_to_user_email_def FriendRequest_clean_def FriendRequest_new_def example_defs lookup_defs)

section \<open>Accepting a friend request\<close>

lemma filter_key_distinct:
  "distinct (map g t) \<Longrightarrow> filter (\<lambda>x. g x = v) t = [] \<or> (\<exists>x. filter (\<lambda>x. g x = v) t = [x])"
proof (induction t)
  case Nil
  then show ?case by simp
next
  case (Cons a t)
  show ?case
  proof (cases "g a = v")
    case True
    with Cons.prems have "v \<notin> g ` set t" by auto
    then have "filter (\<lambda>x. g x = v) t = []" by (auto simp: filter_empty_conv)
    with True show ?thesis by simp
  next
    case False
    with Cons show ?thesis by simp
  qed
qed

lemma friend_pair_pred:
  "(\<lambda>(j, r). fs_user r = a \<and> friend r = b) = (\<lambda>x. friend_pair x = (a, b))"
  by (auto simp: friend_pair_def fun_eq_iff)

lemma friendship_get_or_create:
  assumes "distinct (map friend_pair t)"
  shows "\<exists>t'. get_or_create ''Friendship'' t (\<lambda>(j, r). fs_user r = a \<and> friend r = b)
                 \<lparr>fs_user = a, friend = b\<rparr> = Inr t'
           \<and> distinct (map friend_pair t')
           \<and> friend_pair ` set t' = insert (a, b) (friend_pair ` set t)"
proof -
  let ?p = "\<lambda>x. friend_pair x = (a, b)"
  from filter_key_distinct [OF assms, of "(a, b)"]
  consider "filter ?p t = []" | x where "filter ?p t = [x]" by blast
  then show ?thesis
  proof cases
    case 1
    then have "(a, b) \<notin> friend_pair ` set t" by (auto simp: filter_empty_conv)
    with 1 assms show ?thesis
      by (simp add: get_or_create_def objects_get_def friend_pair_pred Model_save_def friend_pair_def)
  next
    case 2
    then have "x \<in> set (filter ?p t)" by simp
    then have "(a, b) \<in> friend_pair ` set t" by force
    with 2 assms show ?thesis
      by (auto simp: get_or_create_def objects_get_def friend_pair_pred)
  qed
qed

lemma friend_request_accept_found:
  assumes uniq: "friendships_unique d"
    and user: "request_user d req = Some (uid, u)"
    and found: "get_object_or_404 ''FriendRequest'' (friend_requests d)
                  (\<lambda>(k, r). k = pk \<and> to_user r = Some uid) = Inr (k, fr)"
    and sender: "related_user d ''FriendRequest has no from_user.'' (from_user fr) = Inr (f, fu)"
  shows "\<exists>d'. handle atomic (\<lambda>d. friend_request_accept d req pk) d
                = (Redirect ''habit:friends'' None
                     [(SUCCESS, ''You are now friends with '' @ username fu)], d')
          \<and> friend_pair ` set (friendships d')
              = friend_pair ` set (friendships d) \<union> {(uid, f), (f, uid)}
          \<and> friendships_unique d'
          \<and> pk \<notin> fst ` set (friend_requests d')
          \<and> friend_requests d' = delete_row (friend_requests d) pk
          \<and> d' = d\<lparr>friendships := friendships d', friend_requests := friend_requests d'\<rparr>"
proof -
  from uniq have u0: "distinct (map friend_pair (friendships d))"
    by (simp add: friendships_unique_def)
  from friendship_get_or_create [OF u0, of uid f] obtain t1 where
    t1: "get_or_create ''Friendship'' (friendships d) (\<lambda>(j, r). fs_user r = uid \<and> friend r = f)
           \<lparr>fs_user = uid, friend = f\<rparr> = Inr t1"
    and u1: "distinct (map friend_pair t1)"
    and s1: "friend_pair ` set t1 = insert (uid, f) (friend_pair ` set (friendships d))"
    by blast
  from friendship_get_or_create [OF u1, of f uid] obtain t2 where
    t2: "get_or_create ''Friendship'' t1 (\<lambda>(j, r). fs_user r = f \<and> friend r = uid)
           \<lparr>fs_user = f, friend = uid\<rparr> = Inr t2"
    and u2: "distinct (map friend_pair t2)"
    and s2: "friend_pair ` set t2 = insert (f, uid) (friend_pair ` set t1)"
    by blast
  have kpk: "k = pk"
    using found by (auto simp: get_object_or_404_def objects_get_def
        split: list.splits sum.splits exn.splits dest!: filter_eq_ConsD)
  let ?d' = "d\<lparr>friendships := t2, friend_requests := delete_row (friend_requests d) pk\<rparr>"
  have "friend_request_accept d req pk
          = (Redirect ''habit:friends'' None
               [(SUCCESS, ''You are now friends with '' @ username fu)], ?d')"
    using user found sender t1 t2 kpk
    by (simp add: friend_request_accept_def login_required_def)
  moreover have "pk \<notin> fst ` set (delete_row (friend_requests d) pk)"
    by (auto simp: delete_row_def)
  ultimately show ?thesis using u2 s1 s2
    by (auto simp: handle_def friendships_unique_def intro!: exI [of _ ?d'])
qed

lemma friend_request_accept_all_or_nothing:
  assumes uniq: "friendships_unique d"
  shows "(\<exists>ms d'. friend_request_accept d req pk = (Redirect ''habit:friends'' None ms, d'))
          \<or> snd (friend_request_accept d req pk) = d"
proof -
  from uniq have u0: "distinct (map friend_pair (friendships d))"
    by (simp add: friendships_unique_def)
  show ?thesis
  proof (cases "request_user d req")
    case None
    then show ?thesis by (simp add: friend_request_accept_def login_required_def)
  next
    case (Some a)
    then obtain uid u where user: "request_user d req = Some (uid, u)" by (cases a) auto
    show ?thesis
    proof (cases "get_object_or_404 ''FriendRequest'' (friend_requests d)
                  (\<lambda>(k, r). k = pk \<and> to_user r = Some uid)")
      case (Inl e)
      with user show ?thesis by (simp add: friend_request_accept_def login_required_def)
    next
      case (Inr b)
      then obtain k fr where found: "get_object_or_404 ''FriendRequest'' (friend_requests d)
                  (\<lambda>(k, r). k = pk \<and> to_user r = Some uid) = Inr (k, fr)" by (cases b) auto
      show ?thesis
      proof (cases "related_user d ''FriendRequest has no from_user.'' (from_user fr)")
        case (Inl e)
        with user found show ?thesis by (simp add: friend_request_accept_def login_required_def)
      next
        case (Inr c)
        then obtain f fu where
          sender: "related_user d ''FriendRequest has no from_user.'' (from_user fr) = Inr (f, fu)"
          by (cases c) auto
        from friend_request_accept_found [OF uniq user found sender, of False]
        show ?thesis by (auto simp: handle_def split: prod.splits response.splits)
      qed
    qed
  qed
qed

section \<open>What the operations write\<close>

lemma Model_save_set: "set (fst (Model_save t pk r)) \<subseteq> set t \<union> {x. snd x = r}"
  by (auto simp: Model_save_def update_row_def split: option.splits if_splits)

lemma HabitLog_save_frame:
  "HabitLog_save d i = Inr (d', i') \<Longrightarrow>
     users d' = users d \<and> habits d' = habits d \<and> streaks d' = streaks d \<and> rewards d' = rewards d"
  by (auto simp: HabitLog_save_def Let_def split: sum.splits prod.splits)

lemma User_save_frame:
  "User_save d i = Inr (d', i') \<Longrightarrow>
     habits d' = habits d \<and> logs d' = logs d \<and> streaks d' = streaks d \<and> rewards d' = rewards d"
  by (auto simp: User_save_def Let_def split: sum.splits prod.splits)

lemma Habit_save_frame:
  "Habit_save d i = Inr (d', i') \<Longrightarrow>
     users d' = users d \<and> logs d' = logs d \<and> streaks d' = streaks d
       \<and> habits d' = fst (Model_save (habits d) (fst i) (snd i))"
  by (auto simp: Habit_save_def Let_def split: sum.splits prod.splits)

lemma StreakAdmin_save_frame:
  "StreakAdmin_save d i = Inr d' \<Longrightarrow> users d' = users d \<and> habits d' = habits d \<and> logs d' = logs d"
  by (auto simp: StreakAdmin_save_def split: prod.splits if_splits)

lemma RewardAdmin_save_frame:
  "RewardAdmin_save d i = Inr d' \<Longrightarrow>
     users d' = users d \<and> habits d' = habits d \<and> logs d' = logs d \<and> streaks d' = streaks d"
  by (auto simp: RewardAdmin_save_def split: prod.splits if_splits)

lemma FriendRequestAdmin_save_frame:
  "FriendRequestAdmin_save d i = Inr d' \<Longrightarrow>
     users d' = users d \<and> habits d' = habits d \<and> logs d' = logs d \<and> streaks d' = streaks d"
  by (auto simp: FriendRequestAdmin_save_def Let_def split: prod.splits if_splits sum.splits exn.splits)

lemma log_add_written: "written d (snd (log_add today d req hid))"
  by (auto simp: log_add_def written_def split: option.splits sum.splits prod.splits exn.splits)

lemma log_edit_written: "written d (snd (log_edit d req pk))"
  by (auto simp: log_edit_def login_required_def written_def
      split: option.splits sum.splits prod.splits)

lemma habit_delete_written: "written d (snd (habit_delete d req pk))"
  by (auto simp: habit_delete_def login_required_def written_def
      split: option.splits sum.splits prod.splits)

lemma reward_claim_written: "written d (snd (reward_claim d req pk))"
  by (auto simp: reward_claim_def login_required_def written_def
      split: option.splits sum.splits prod.splits)

lemma friend_request_send_unchanged: "snd (friend_request_send d req) = d"
proof -
  obtain x where "FriendRequestForm_is_valid d (req_POST req) = Inl x"
    using FriendRequestForm_raises by blast
  then show ?thesis
    by (simp add: friend_request_send_def login_required_def split: option.splits prod.splits)
qed

lemma friend_request_accept_written: "written d (snd (friend_request_accept d req pk))"
  by (auto simp: friend_request_accept_def login_required_def written_def
      split: option.splits sum.splits prod.splits)

lemma written_refl: "written d d"
  by (simp add: written_def)

lemma dispatch_written: "written d (snd (dispatch today v d))"
  by (cases v) (simp_all add: log_add_written log_edit_written habit_delete_written
      reward_claim_written friend_request_accept_written friend_request_send_unchanged written_refl)

lemma handle_cases: "snd (handle atomic view d) = d \<or> snd (handle atomic view d) = snd (view d)"
  by (auto simp: handle_def split: prod.splits response.splits)

lemma handle_written: "written d (snd (handle atomic (dispatch today v) d))"
  using handle_cases [of atomic "dispatch today v" d] dispatch_written [of d today v]
  by (auto simp: written_refl)

section \<open>Points\<close>

lemma User_save_points:
  assumes "User_save d i = Inr (d', i')" and "points_nonnegative d"
  shows "points_nonnegative d'"
proof -
  obtain pk u where i: "i = (pk, u)" by (cases i)
  define u1 where "u1 = u\<lparr>contact := (if contact u = Some [] then None else contact u)\<rparr>"
  from assms(1) i have ok: "User_full_clean d pk u1 = Inr ()"
    and d': "d' = d\<lparr>users := fst (Model_save (users d) pk u1)\<rparr>"
    by (auto simp: User_save_def Let_def u1_def split: sum.splits prod.splits)
  from ok have "0 \<le> points u1"
    by (auto simp: User_full_clean_def User_clean_fields_def positive_field_errors_def Let_def
        split: if_splits)
  with assms(2) Model_save_set [of "users d" pk u1] show ?thesis
    by (auto simp: points_nonnegative_def d' list_all_iff)
qed

lemma written_points: "written d d' \<Longrightarrow> points_nonnegative d \<Longrightarrow> points_nonnegative d'"
  unfolding written_def
  by (auto simp: points_nonnegative_def dest: HabitLog_save_frame
      intro: User_save_points [unfolded points_nonnegative_def])

lemma reachable_points_nonnegative: "reachable d \<Longrightarrow> points_nonnegative d"
proof (induction rule: reachable.induct)
  case initial
  show ?case by (simp add: points_nonnegative_def empty_db_def)
next
  case (user_save d inst d' inst')
  then show ?case by (blast intro: User_save_points)
next
  case (habit_save d hinst d' hinst')
  then show ?case by (auto simp: points_nonnegative_def dest: Habit_save_frame)
next
  case (log_save d linst d' linst')
  then show ?case by (auto simp: points_nonnegative_def dest: HabitLog_save_frame)
next
  case (streak_admin d sinst d')
  then show ?case by (auto simp: points_nonnegative_def dest: StreakAdmin_save_frame)
next
  case (reward_admin d rinst d')
  then show ?case by (auto simp: points_nonnegative_def dest: RewardAdmin_save_frame)
next
  case (request_admin d finst d')
  then show ?case by (auto simp: points_nonnegative_def dest: FriendRequestAdmin_save_frame)
next
  case (view d atomic today v)
  then show ?case by (blast intro: written_points handle_written)
qed

lemma example_db_reachable: "reachable example_db"
proof -
  have "User_save empty_db (None, example_user)
          = Inr (empty_db\<lparr>users := [(1, example_user)]\<rparr>, (Some 1, example_user))"
    by (simp add: user_defs example_defs lookup_defs Let_def)
  from reachable.user_save [OF reachable.initial this]
  have r1: "reachable (empty_db\<lparr>users := [(1, example_user)]\<rparr>)" .
  have "User_save (empty_db\<lparr>users := [(1, example_user)]\<rparr>) (None, example_friend)
          = Inr (empty_db\<lparr>users := [(1, example_user), (2, example_friend)]\<rparr>, (Some 2, example_friend))"
    by (simp add: user_defs example_defs lookup_defs Let_def)
  from reachable.user_save [OF r1 this]
  have r2: "reachable (empty_db\<lparr>users := [(1, example_user), (2, example_friend)]\<rparr>)" .
  have "Habit_save (empty_db\<lparr>users := [(1, example_user), (2, example_friend)]\<rparr>) (None, example_habit)
          = Inr (example_db, (Some 1, example_habit))"
    by (simp add: Habit_save_def Habit_full_clean_def Habit_clean_fields_def Habit_clean_def
        user_field_errors_def FREQUENCY_CHOICES_def example_defs lookup_defs Let_def)
  from reachable.habit_save [OF r2 this] show ?thesis .
qed

lemma example_rewards_db_reachable: "reachable example_rewards_db"
proof -
  have "RewardAdmin_save example_db (None, example_reward) = Inr example_rewards_db"
    by (simp add: RewardAdmin_save_def Reward_clean_fields_def user_field_errors_def
        char_field_errors_def example_defs lookup_defs)
  from reachable.reward_admin [OF example_db_reachable this] show ?thesis .
qed

text \<open>
  Claim C10. In every reachable state every user's \<open>points\<close> is a non-negative
  integer: each write of a user row goes through \<^verbatim>\<open>User.save\<close>, whose validation
  refuses a negative balance, and \<^verbatim>\<open>reward_claim\<close> subtracts \<open>points_required\<close>
  only when the balance is at least that much; so the state after any reward claim
  has no negative balance either.
\<close>

theorem points_never_negative:
  assumes "reachable d"
  shows "points_nonnegative d
         \<and> points_nonnegative (snd (handle atomic (\<lambda>d. reward_claim d req pk) d))"
proof -
  have "reachable (snd (handle atomic (dispatch 0 (Reward_claim req pk)) d))"
    using assms by (rule reachable.view)
  then have "reachable (snd (handle atomic (\<lambda>d. reward_claim d req pk) d))"
    by (simp add: handle_def)
  with assms show ?thesis by (simp add: reachable_points_nonnegative)
qed

theorem points_never_negative_witness:
  "reachable example_rewards_db
   \<and> snd (handle False (\<lambda>d. reward_claim d (example_request 1 ()) 1) example_rewards_db)
       = example_rewards_db\<lparr>users := [(1, example_user\<lparr>points := 70\<rparr>), (2, example_friend)]\<rparr>
   \<and> points_nonnegative (example_rewards_db\<lparr>users := [(1, example_user\<lparr>points := 70\<rparr>), (2, example_friend)]\<rparr>)"
proof -
  have e: "reward_claim example_rewards_db (example_request 1 ()) 1
     = (Raised (AttributeError ''Reward.claimed_by''),
        example_rewards_db\<lparr>users := [(1, example_user\<lparr>points := 70\<rparr>), (2, example_friend)]\<rparr>)"
    by (simp add: reward_claim_def example_defs lookup_defs user_defs Let_def)
  have s: "snd (handle False (\<lambda>d. reward_claim d (example_request 1 ()) 1) example_rewards_db)
       = example_rewards_db\<lparr>users := [(1, example_user\<lparr>points := 70\<rparr>), (2, example_friend)]\<rparr>"
    unfolding handle_def e by simp
  from points_never_negative [OF example_rewards_db_reachable, of False "example_request 1 ()" 1]
  show ?thesis using example_rewards_db_reachable s by simp
qed

section \<open>One log for a habit and a day\<close>























section \<open>Streaks\<close>

lemma written_streaks: "written d d' \<Longrightarrow> streaks_ordered d \<Longrightarrow> streaks_ordered d'"
  unfolding written_def
proof (elim disjE exE conjE)
  fix i i' assume "HabitLog_save d i = Inr (d', i')" and "streaks_ordered d"
  then show "streaks_ordered d'"
    using HabitLog_save_frame [of d i d' i'] by (simp add: streaks_ordered_def)
next
  fix i i' assume "User_save d i = Inr (d', i')" and "streaks_ordered d"
  then show "streaks_ordered d'"
    using User_save_frame [of d i d' i'] by (simp add: streaks_ordered_def)
qed (auto simp: streaks_ordered_def list_all_iff)

text \<open>
  Claim C5, as stated, fails. The admin site accepts a streak of Ann's habit with
  \<open>current_streak = 5\<close> and \<open>longest_streak = 0\<close>: both counters pass the field
  validators, \<^verbatim>\<open>Streak\<close> has no \<^verbatim>\<open>clean\<close>, and the row is stored; the resulting
  state is reachable and breaks \<open>longest_streak \<ge> current_streak\<close>.
\<close>

theorem streak_admin_counterexample:
  "StreakAdmin_save example_db (None, (Streak_new 1 1)\<lparr>current_streak := 5\<rparr>) = Inr example_streak_db
   \<and> reachable example_streak_db \<and> \<not> streaks_ordered example_streak_db"
proof -
  have e: "StreakAdmin_save example_db (None, (Streak_new 1 1)\<lparr>current_streak := 5\<rparr>)
             = Inr example_streak_db"
    by (simp add: StreakAdmin_save_def Streak_clean_fields_def Streak_new_def user_field_errors_def
        habit_field_errors_def positive_field_errors_def example_defs lookup_defs)
  from reachable.streak_admin [OF example_db_reachable e] have "reachable example_streak_db" .
  moreover have "\<not> streaks_ordered example_streak_db"
    by (simp add: streaks_ordered_def example_defs Streak_new_def)
  ultimately show ?thesis using e by simp
qed

text \<open>
  Claim C5, amended. \<open>longest_streak \<ge> current_streak\<close> holds of every streak in
  the initial state, is preserved by every view (none of them writes a counter;
  \<^verbatim>\<open>habit_delete\<close> removes the streaks of the habit), and is preserved by saving a
  streak that has the model's defaults, both counters 0. The model itself does not
  enforce it.
\<close>

theorem views_keep_streaks_ordered:
  assumes "streaks_ordered d"
  shows "streaks_ordered (snd (handle atomic (dispatch today v) d))
         \<and> streaks_ordered (d\<lparr>streaks := fst (Model_save (streaks d) pk (Streak_new u h))\<rparr>)
         \<and> streaks_ordered empty_db"
proof -
  have "streaks_ordered (snd (handle atomic (dispatch today v) d))"
    using assms by (blast intro: written_streaks handle_written)
  moreover have "streaks_ordered (d\<lparr>streaks := fst (Model_save (streaks d) pk (Streak_new u h))\<rparr>)"
    using assms Model_save_set [of "streaks d" pk "Streak_new u h"]
    by (auto simp: streaks_ordered_def list_all_iff Streak_new_def)
  moreover have "streaks_ordered empty_db"
    by (simp add: streaks_ordered_def empty_db_def)
  ultimately show ?thesis by simp
qed

theorem views_keep_streaks_ordered_witness:
  "streaks_ordered example_streak0_db
   \<and> snd (handle False (dispatch 5 (Habit_delete (example_request 1 ()) 1)) example_streak0_db)
       = example_streak0_db\<lparr>habits := [], streaks := []\<rparr>
   \<and> streaks_ordered (example_streak0_db\<lparr>habits := [], streaks := []\<rparr>)"
proof -
  have a: "streaks_ordered example_streak0_db"
    by (simp add: streaks_ordered_def example_defs Streak_new_def)
  have e: "habit_delete example_streak0_db (example_request 1 ()) 1
     = (Redirect ''habit:habit_list'' None [(SUCCESS, ''Habit deleted successfully!'')],
        example_streak0_db\<lparr>habits := [], streaks := []\<rparr>)"
    by (simp add: habit_delete_def example_defs lookup_defs Streak_new_def)
  have s: "snd (handle False (dispatch 5 (Habit_delete (example_request 1 ()) 1)) example_streak0_db)
       = example_streak0_db\<lparr>habits := [], streaks := []\<rparr>"
    unfolding handle_def dispatch.simps e by simp
  from views_keep_streaks_ordered [OF a, of False 5 "Habit_delete (example_request 1 ()) 1"]
  show ?thesis using a s by simp
qed

section \<open>Friendships in reachable states\<close>

lemma HabitLog_save_friendships:
  "HabitLog_save d i = Inr (d', i') \<Longrightarrow> friendships d' = friendships d"
  by (auto simp: HabitLog_save_def Let_def split: sum.splits prod.splits)

lemma User_save_friendships:
  "User_save d i = Inr (d', i') \<Longrightarrow> friendships d' = friendships d"
  by (auto simp: User_save_def Let_def split: sum.splits prod.splits)

lemma Habit_save_friendships:
  "Habit_save d i = Inr (d', i') \<Longrightarrow> friendships d' = friendships d"
  by (auto simp: Habit_save_def Let_def split: sum.splits prod.splits)

lemma StreakAdmin_save_friendships:
  "StreakAdmin_save d i = Inr d' \<Longrightarrow> friendships d' = friendships d"
  by (auto simp: StreakAdmin_save_def split: prod.splits if_splits)

lemma RewardAdmin_save_friendships:
  "RewardAdmin_save d i = Inr d' \<Longrightarrow> friendships d' = friendships d"
  by (auto simp: RewardAdmin_save_def split: prod.splits if_splits)

lemma FriendRequestAdmin_save_friendships:
  "FriendRequestAdmin_save d i = Inr d' \<Longrightarrow> friendships d' = friendships d"
  by (auto simp: FriendRequestAdmin_save_def Let_def split: prod.splits if_splits sum.splits exn.splits)

lemma log_add_friendships: "friendships (snd (log_add today d req hid)) = friendships d"
  by (auto simp: log_add_def split: option.splits sum.splits prod.splits exn.splits
      dest: HabitLog_save_friendships)

lemma log_edit_friendships: "friendships (snd (log_edit d req pk)) = friendships d"
  by (auto simp: log_edit_def login_required_def split: option.splits sum.splits prod.splits
      dest: HabitLog_save_friendships)

lemma habit_delete_friendships: "friendships (snd (habit_delete d req pk)) = friendships d"
  by (auto simp: habit_delete_def login_required_def split: option.splits sum.splits prod.splits)

lemma reward_claim_friendships: "friendships (snd (reward_claim d req pk)) = friendships d"
  by (auto simp: reward_claim_def login_required_def split: option.splits sum.splits prod.splits
      dest: User_save_friendships)

lemma friend_request_accept_unique:
  assumes uniq: "friendships_unique d"
  shows "friendships_unique (snd (friend_request_accept d req pk))"
proof -
  from friend_request_accept_all_or_nothing [OF uniq, of req pk]
  consider ms d' where "friend_request_accept d req pk = (Redirect ''habit:friends'' None ms, d')"
    | "snd (friend_request_accept d req pk) = d" by blast
  then show ?thesis
  proof cases
    case 1
    from uniq have u0: "distinct (map friend_pair (friendships d))"
      by (simp add: friendships_unique_def)
    from 1 obtain uid f t1 t2 where
      t1: "get_or_create ''Friendship'' (friendships d) (\<lambda>(j, r). fs_user r = uid \<and> friend r = f)
             \<lparr>fs_user = uid, friend = f\<rparr> = Inr t1"
      and t2: "get_or_create ''Friendship'' t1 (\<lambda>(j, r). fs_user r = f \<and> friend r = uid)
             \<lparr>fs_user = f, friend = uid\<rparr> = Inr t2"
      and d': "friendships d' = t2"
      by (auto simp: friend_request_accept_def login_required_def
          split: option.splits sum.splits prod.splits)
    from friendship_get_or_create [OF u0, of uid f] t1 have "distinct (map friend_pair t1)" by auto
    from friendship_get_or_create [OF this, of f uid] t2 have "distinct (map friend_pair t2)" by auto
    with 1 d' show ?thesis by (simp add: friendships_unique_def)
  next
    case 2
    with uniq show ?thesis by simp
  qed
qed

lemma dispatch_friendships:
  "friendships_unique d \<Longrightarrow> friendships_unique (snd (dispatch today v d))"
  by (cases v) (simp_all add: friendships_unique_def log_add_friendships log_edit_friendships
      habit_delete_friendships reward_claim_friendships friend_request_send_unchanged
      friend_request_accept_unique [unfolded friendships_unique_def])

lemma reachable_friendships_unique: "reachable d \<Longrightarrow> friendships_unique d"
proof (induction rule: reachable.induct)
  case initial
  show ?case by (simp add: friendships_unique_def empty_db_def)
next
  case (user_save d inst d' inst')
  then show ?case by (auto simp: friendships_unique_def dest: User_save_friendships)
next
  case (habit_save d hinst d' hinst')
  then show ?case by (auto simp: friendships_unique_def dest: Habit_save_friendships)
next
  case (log_save d linst d' linst')
  then show ?case by (auto simp: friendships_unique_def dest: HabitLog_save_friendships)
next
  case (streak_admin d sinst d')
  then show ?case by (auto simp: friendships_unique_def dest: StreakAdmin_save_friendships)
next
  case (reward_admin d rinst d')
  then show ?case by (auto simp: friendships_unique_def dest: RewardAdmin_save_friendships)
next
  case (request_admin d finst d')
  then show ?case by (auto simp: friendships_unique_def dest: FriendRequestAdmin_save_friendships)
next
  case (view d atomic today v)
  with handle_cases [of atomic "dispatch today v" d] show ?case
    by (auto intro: dispatch_friendships)
qed

lemma example_requests_db_reachable: "reachable example_requests_db"
proof -
  have "FriendRequestAdmin_save example_db
          (None, \<lparr>from_user = Some 1, to_user = Some 2, is_accepted = False\<rparr>)
          = Inr example_requests_db"
    by (simp add: FriendRequestAdmin_save_def FriendRequest_clean_def request_user_errors_def
        user_field_errors_def FriendRequest_validate_unique_def example_defs lookup_defs Let_def)
  from reachable.request_admin [OF example_db_reachable this] show ?thesis .
qed

text \<open>
  Claim C8. In a reachable state, let the logged-in user \<open>uid\<close> accept the request
  \<open>pk\<close> that \<open>f\<close> sent to them. Then the view answers with the success redirect, the
  friendships afterwards are those from before together with both \<open>(uid, f)\<close> and
  \<open>(f, uid)\<close>, still unique, and no request has the key \<open>pk\<close> any more; the rest of
  the database is untouched. The three writes come together or not at all: whenever
  the view does not answer with its success redirect, for any request and key, the
  database is the one it found.
\<close>

theorem friend_request_accept_symmetric:
  assumes reach: "reachable d"
    and user: "request_user d req = Some (uid, u)"
    and found: "get_object_or_404 ''FriendRequest'' (friend_requests d)
                  (\<lambda>(k, r). k = pk \<and> to_user r = Some uid) = Inr (k, fr)"
    and sender: "related_user d ''FriendRequest has no from_user.'' (from_user fr) = Inr (f, fu)"
  shows "(\<exists>d'. handle atomic (\<lambda>d. friend_request_accept d req pk) d
                = (Redirect ''habit:friends'' None
                     [(SUCCESS, ''You are now friends with '' @ username fu)], d')
          \<and> friend_pair ` set (friendships d')
              = friend_pair ` set (friendships d) \<union> {(uid, f), (f, uid)}
          \<and> friendships_unique d'
          \<and> pk \<notin> fst ` set (friend_requests d')
          \<and> friend_requests d' = delete_row (friend_requests d) pk
          \<and> d' = d\<lparr>friendships := friendships d', friend_requests := friend_requests d'\<rparr>)
       \<and> (\<forall>req' pk'.
             (\<exists>ms d'. friend_request_accept d req' pk' = (Redirect ''habit:friends'' None ms, d'))
             \<or> snd (friend_request_accept d req' pk') = d)"
proof -
  from reach have uniq: "friendships_unique d" by (rule reachable_friendships_unique)
  from friend_request_accept_found [OF uniq user found sender, of atomic]
    friend_request_accept_all_or_nothing [OF uniq]
  show ?thesis by blast
qed

theorem friend_request_accept_symmetric_witness:
  "reachable example_requests_db
   \<and> (\<exists>d'. handle False (\<lambda>d. friend_request_accept d (example_request 2 ()) 1) example_requests_db
                = (Redirect ''habit:friends'' None [(SUCCESS, ''You are now friends with ann'')], d')
          \<and> friend_pair ` set (friendships d') = {(2, 1), (1, 2)}
          \<and> friend_requests d' = [])"
proof -
  have a: "request_user example_requests_db (example_request 2 ()) = Some (2, example_friend)"
    by (simp add: example_defs lookup_defs)
  have b: "get_object_or_404 ''FriendRequest'' (friend_requests example_requests_db)
             (\<lambda>(k, r). k = 1 \<and> to_user r = Some 2)
             = Inr (1, \<lparr>from_user = Some 1, to_user = Some 2, is_accepted = False\<rparr>)"
    by (simp add: example_defs lookup_defs)
  have c: "related_user example_requests_db ''FriendRequest has no from_user.''
             (from_user \<lparr>from_user = Some 1, to_user = Some 2, is_accepted = False\<rparr>)
             = Inr (1, example_user)"
    by (simp add: example_defs lookup_defs)
  have f: "friendships example_requests_db = []" "friend_requests example_requests_db
      = [(1, \<lparr>from_user = Some 1, to_user = Some 2, is_accepted = False\<rparr>)]"
    "username example_user = ''ann''"
    by (simp_all add: example_defs)
  from friend_request_accept_symmetric [OF example_requests_db_reachable a b c, of False]
    example_requests_db_reachable f
  show ?thesis by (auto simp: delete_row_def)
qed

end
